theory Spec2Isabelle
  imports Complex_Main "HOL-Library.Product_Lexorder"
begin

section \<open>The credential store\<close>

text \<open>
  The table \<open>users(id INTEGER PRIMARY KEY AUTOINCREMENT, username TEXT UNIQUE,
  password TEXT)\<close> of \<open>withdatabase.py\<close> is a list of rows in insertion order, together
  with the AUTOINCREMENT counter. \<open>initialize_database\<close> runs when the module is loaded,
  so the table exists whenever one of the functions below is called. User names and
  passwords arrive from text inputs, so they are strings, never NULL.
\<close>

record user_row =
  uid :: nat
  username :: string
  password :: string

record database =
  users :: "user_row list"
  seq :: nat

definition initialize_database :: "database option \<Rightarrow> database option" where
  \<comment> \<open>CREATE TABLE IF NOT EXISTS: \<open>None\<close> is the file without the table.\<close>
  "initialize_database d =
     (case d of None \<Rightarrow> Some \<lparr>users = [], seq = 0\<rparr> | Some t \<Rightarrow> Some t)"

definition register_user :: "string \<Rightarrow> string \<Rightarrow> database \<Rightarrow> bool \<times> database" where
  \<comment> \<open>INSERT; the UNIQUE constraint on username raises IntegrityError, which the
      function turns into False (nothing is committed).\<close>
  "register_user uname pw db =
     (if \<exists>r \<in> set (users db). username r = uname then (False, db)
      else (True, \<lparr>users = users db @ [\<lparr>uid = Suc (seq db), username = uname, password = pw\<rparr>],
                   seq = Suc (seq db)\<rparr>))"

definition fetchone :: "'a list \<Rightarrow> 'a option" where
  "fetchone rows = (case rows of [] \<Rightarrow> None | r # _ \<Rightarrow> Some r)"

definition authenticate_user :: "string \<Rightarrow> string \<Rightarrow> database \<Rightarrow> bool" where
  \<comment> \<open>SELECT * FROM users WHERE username = ? AND password = ?; TEXT is compared
      with the default BINARY collation, which is equality of the strings.\<close>
  "authenticate_user uname pw db =
     (fetchone (filter (\<lambda>r. username r = uname \<and> password r = pw) (users db)) \<noteq> None)"

definition taken :: "string \<Rightarrow> database \<Rightarrow> bool" where
  \<comment> \<open>the user name is in the table\<close>
  "taken uname db = (\<exists>r \<in> set (users db). username r = uname)"

text \<open>A sequence of registrations against the store, with the result of each call.\<close>

fun register_calls :: "database \<Rightarrow> (string \<times> string) list \<Rightarrow> bool list" where
  "register_calls db [] = []"
| "register_calls db (c # cs) =
     fst (register_user (fst c) (snd c) db) #
     register_calls (snd (register_user (fst c) (snd c) db)) cs"

definition accepted :: "string \<Rightarrow> database \<Rightarrow> (string \<times> string) list \<Rightarrow> nat" where
  \<comment> \<open>how many of the calls for user name \<open>uname\<close> returned True\<close>
  "accepted uname db cs =
     length (filter (\<lambda>(c, ok). fst c = uname \<and> ok) (zip cs (register_calls db cs)))"

definition stored_password :: "string \<Rightarrow> database \<Rightarrow> string option" where
  "stored_password uname db =
     map_option password (fetchone (filter (\<lambda>r. username r = uname) (users db)))"

section \<open>Series and the pandas operations the indicators use\<close>

text \<open>
  A pandas float column is a list of cells; a cell is a number or NaN (\<open>None\<close>).
  Numbers are reals: rounding, overflow and the infinities of IEEE doubles are outside
  the model.
\<close>

type_synonym series = "real option list"

definition lift2 :: "(real \<Rightarrow> real \<Rightarrow> real) \<Rightarrow> real option \<Rightarrow> real option \<Rightarrow> real option" where
  "lift2 f a b = (case a of None \<Rightarrow> None | Some x \<Rightarrow> (case b of None \<Rightarrow> None | Some y \<Rightarrow> Some (f x y)))"

definition fdiv :: "real option \<Rightarrow> real option \<Rightarrow> real option" where
  \<comment> \<open>A zero divisor gives an infinity or NaN in numpy, never an exception; the model
      has no infinities and answers NaN there. The RSI never reaches that branch
      (lemmas \<open>rs_divisor_nonzero\<close> and \<open>rsi_divisor_nonzero\<close>).\<close>
  "fdiv a b = (case a of None \<Rightarrow> None
               | Some x \<Rightarrow> (case b of None \<Rightarrow> None
                            | Some y \<Rightarrow> if y = 0 then None else Some (x / y)))"

definition s_add :: "series \<Rightarrow> series \<Rightarrow> series" where
  "s_add xs ys = map2 (lift2 (+)) xs ys"

definition s_sub :: "series \<Rightarrow> series \<Rightarrow> series" where
  "s_sub xs ys = map2 (lift2 (-)) xs ys"

definition s_div :: "series \<Rightarrow> series \<Rightarrow> series" where
  "s_div xs ys = map2 fdiv xs ys"

definition s_scale :: "series \<Rightarrow> real \<Rightarrow> series" where
  "s_scale xs c = map (map_option (\<lambda>x. x * c)) xs"

definition diff :: "series \<Rightarrow> series" where
  \<comment> \<open>Series.diff(): the first cell is NaN, cell i is xs[i] - xs[i-1].\<close>
  "diff xs = (case xs of [] \<Rightarrow> [] | x # rest \<Rightarrow> None # map2 (lift2 (-)) rest xs)"

definition clip_lower :: "real \<Rightarrow> series \<Rightarrow> series" where
  "clip_lower lo xs = map (map_option (\<lambda>x. max x lo)) xs"

definition clip_upper :: "real \<Rightarrow> series \<Rightarrow> series" where
  "clip_upper hi xs = map (map_option (\<lambda>x. min x hi)) xs"

definition replace :: "real option \<Rightarrow> real option \<Rightarrow> series \<Rightarrow> series" where
  "replace old new xs = map (\<lambda>x. if x = old then new else x) xs"

subsection \<open>Rolling windows\<close>

text \<open>
  \<open>rolling(window=w)\<close> gives cell i the window of the cells i-w+1 .. i (cut at the start
  of the column), with min_periods = w: the aggregate is NaN unless the window holds at
  least w numbers. \<open>std\<close> is the sample standard deviation (ddof = 1).
\<close>

definition window :: "nat \<Rightarrow> 'a list \<Rightarrow> nat \<Rightarrow> 'a list" where
  "window w xs i = drop (Suc i - w) (take (Suc i) xs)"

definition observed :: "series \<Rightarrow> real list" where
  "observed win = concat (map (\<lambda>c. case c of None \<Rightarrow> [] | Some x \<Rightarrow> [x]) win)"

definition mean_agg :: "nat \<Rightarrow> series \<Rightarrow> real option" where
  "mean_agg minp win =
     (let obs = observed win; n = length obs
      in if minp \<le> n \<and> 0 < n then Some (sum_list obs / real n) else None)"

definition std_agg :: "nat \<Rightarrow> nat \<Rightarrow> series \<Rightarrow> real option" where
  "std_agg minp ddof win =
     (let obs = observed win; n = length obs; m = sum_list obs / real n
      in if minp \<le> n \<and> ddof < n
         then Some (sqrt (sum_list (map (\<lambda>x. (x - m)\<^sup>2) obs) / real (n - ddof)))
         else None)"

definition rolling :: "nat \<Rightarrow> (series \<Rightarrow> real option) \<Rightarrow> series \<Rightarrow> series" where
  "rolling w agg xs = map (\<lambda>i. agg (window w xs i)) [0..<length xs]"

definition rolling_mean :: "nat \<Rightarrow> series \<Rightarrow> series" where
  "rolling_mean w xs = rolling w (mean_agg w) xs"

definition rolling_std :: "nat \<Rightarrow> series \<Rightarrow> series" where
  "rolling_std w xs = rolling w (std_agg w 1) xs"

subsection \<open>Exponentially weighted mean\<close>

text \<open>
  \<open>ewm(span=s, adjust=False).mean()\<close> with alpha = 2/(s+1): the running average starts at
  the first number of the column; a number c moves it to
  (old_wt * avg + alpha * c) / (old_wt + alpha), where old_wt is (1 - alpha) raised to the
  distance from the previous number; a NaN cell repeats the running average.
\<close>

fun ewm_loop :: "real \<Rightarrow> real option \<Rightarrow> real \<Rightarrow> series \<Rightarrow> series" where
  "ewm_loop \<alpha> weighted old_wt [] = []"
| "ewm_loop \<alpha> None old_wt (cur # rest) = cur # ewm_loop \<alpha> cur old_wt rest"
| "ewm_loop \<alpha> (Some a) old_wt (None # rest) =
     Some a # ewm_loop \<alpha> (Some a) (old_wt * (1 - \<alpha>)) rest"
| "ewm_loop \<alpha> (Some a) old_wt (Some c # rest) =
     (let ow = old_wt * (1 - \<alpha>); a' = (ow * a + \<alpha> * c) / (ow + \<alpha>)
      in Some a' # ewm_loop \<alpha> (Some a') 1 rest)"

definition ewm_mean :: "nat \<Rightarrow> series \<Rightarrow> series" where
  \<comment> \<open>the argument is pandas' \<open>span\<close>\<close>
  "ewm_mean spn xs = ewm_loop (2 / (real spn + 1)) None 1 xs"

text \<open>A cell that is NaN or a number that is not negative.\<close>

definition nonneg_cell :: "real option \<Rightarrow> bool" where
  "nonneg_cell c = (case c of None \<Rightarrow> True | Some x \<Rightarrow> 0 \<le> x)"

text \<open>
  The recurrence in the words of the specification, for a column without NaN:
  ema[0] = close[0], ema[i] = close[i] * k + ema[i-1] * (1 - k).
\<close>

fun ema_rec :: "real \<Rightarrow> real \<Rightarrow> real list \<Rightarrow> real list" where
  "ema_rec k prev [] = []"
| "ema_rec k prev (c # cs) = (c * k + prev * (1 - k)) # ema_rec k (c * k + prev * (1 - k)) cs"

fun ema :: "real \<Rightarrow> real list \<Rightarrow> real list" where
  "ema k [] = []"
| "ema k (c # cs) = c # ema_rec k c cs"

section \<open>The indicators of \<open>main_app\<close>\<close>

definition MA :: "nat \<Rightarrow> series \<Rightarrow> series" where
  \<comment> \<open>data['Close'].rolling(window=ma_days).mean()\<close>
  "MA ma_days close = rolling_mean ma_days close"

definition Std :: "nat \<Rightarrow> series \<Rightarrow> series" where
  \<comment> \<open>data['Close'].rolling(window=bb_window).std()\<close>
  "Std bb_window close = rolling_std bb_window close"

definition Upper_Band :: "nat \<Rightarrow> series \<Rightarrow> series" where
  "Upper_Band bb_window close = s_add (MA bb_window close) (s_scale (Std bb_window close) 2)"

definition Lower_Band :: "nat \<Rightarrow> series \<Rightarrow> series" where
  "Lower_Band bb_window close = s_sub (MA bb_window close) (s_scale (Std bb_window close) 2)"

definition up :: "series \<Rightarrow> series" where
  "up close = clip_lower 0 (diff close)"

definition down :: "series \<Rightarrow> series" where
  "down close = s_scale (clip_upper 0 (diff close)) (- 1)"

definition avg_up :: "nat \<Rightarrow> series \<Rightarrow> series" where
  "avg_up rsi_period close = rolling_mean rsi_period (up close)"

definition avg_down :: "nat \<Rightarrow> series \<Rightarrow> series" where
  "avg_down rsi_period close = rolling_mean rsi_period (down close)"

definition rs :: "nat \<Rightarrow> series \<Rightarrow> series" where
  \<comment> \<open>avg_up / avg_down.replace(0, np.nan)\<close>
  "rs rsi_period close =
     s_div (avg_up rsi_period close) (replace (Some 0) None (avg_down rsi_period close))"

definition RSI :: "nat \<Rightarrow> series \<Rightarrow> series" where
  \<comment> \<open>100 - (100 / (1 + rs))\<close>
  "RSI rsi_period close =
     map (\<lambda>r. lift2 (-) (Some 100) (fdiv (Some 100) (lift2 (+) (Some 1) r))) (rs rsi_period close)"

definition MACD :: "series \<Rightarrow> series" where
  "MACD close = s_sub (ewm_mean 12 close) (ewm_mean 26 close)"

definition Signal_Line :: "series \<Rightarrow> series" where
  "Signal_Line close = ewm_mean 9 (MACD close)"

section \<open>The page: widgets, session state and the script\<close>

text \<open>
  Streamlit reruns the script on every interaction. One run reads the widget values
  (\<open>ui\<close>), the session state and the store, and leaves the new session state, the new
  store and the elements it has shown, in order. A calendar date is (year, month, day),
  ordered as \<open>datetime.date\<close> is.

  In \<open>withdatabase.py\<close> the lines \<open>with tab1:\<close> (99) and \<open>with tab3:\<close> (141) stand one
  column to the left of the block they belong to, which Python rejects when it reads the
  file. The model reads the four \<open>with\<close> blocks at the level of the \<open>else\<close> branch they
  continue, next to \<open>with tab2:\<close> and \<open>with tab4:\<close>.
\<close>

type_synonym date = "nat \<times> nat \<times> nat"

text \<open>
  The ticker is a Python \<open>str\<close>, a sequence of Unicode code points, and so is every text
  built from it. The fixed messages are ASCII literals.
\<close>

type_synonym pystr = "nat list"

definition str :: "string \<Rightarrow> pystr" where
  \<comment> \<open>an ASCII literal as a Python str\<close>
  "str s = map of_char s"

datatype menu = Login | Register

record ui =
  menu_choice :: menu
  login_username :: string
  login_password :: string
  login_button :: bool
  register_username :: string
  register_password :: string
  register_button :: bool
  logout_button :: bool
  ticker_input :: pystr
  start_date :: date
  end_date :: date
  ma_days :: nat
  bb_window :: nat
  rsi_period :: nat
  show_data_table :: bool

record price_table =
  index :: "date list"
  Open :: series
  High :: series
  Low :: series
  Close :: series

datatype element =
    Title string
  | Success string
  | Error string
  | Info string
  | Warning pystr
  | Stop
  | Download pystr date date
  | Plotly_chart pystr "(string \<times> series) list"
  | Dataframe "(string \<times> series) list"

type_synonym session_state = "string \<rightharpoonup> bool"

subsection \<open>\<open>str.upper()\<close>\<close>

text \<open>
  \<open>str.upper()\<close> replaces every code point by its full upper-case mapping, one to three
  code points, whatever stands around it. The mapping is that of the Unicode Character
  Database 14.0, which CPython 3.11 carries. In ASCII it turns a..z into A..Z. Beyond
  ASCII the table \<open>upper_blocks\<close> gives it, cut into blocks of consecutive code points: a
  block (limit, ranges, special) holds the code points below \<open>limit\<close> that no earlier
  block holds; \<open>special\<close> lists those with a mapping of several code points, and an
  entry (lo, hi, step, d) of \<open>ranges\<close> sends the code points lo, lo + step, ..., hi to
  themselves plus d. Every other code point stays as it is. \<open>lower_blocks\<close> is the
  lower-case mapping of one code point in the same form.
\<close>

definition case_lookup ::
  "(nat \<times> nat \<times> nat \<times> int) list \<Rightarrow> (nat \<times> nat list) list \<Rightarrow> nat \<Rightarrow> nat list" where
  "case_lookup ranges special c =
     (case map_of special c of
        Some cs \<Rightarrow> cs
      | None \<Rightarrow>
          (case find (\<lambda>(lo, hi, step, d). lo \<le> c \<and> c \<le> hi \<and> (c - lo) mod step = 0) ranges of
             Some (lo, hi, step, d) \<Rightarrow> [nat (int c + d)]
           | None \<Rightarrow> [c]))"

definition block_lookup ::
  "(nat \<times> (nat \<times> nat \<times> nat \<times> int) list \<times> (nat \<times> nat list) list) list \<Rightarrow> nat \<Rightarrow> nat list" where
  "block_lookup blocks c =
     (case find (\<lambda>(limit, ranges, special). c < limit) blocks of
        Some (limit, ranges, special) \<Rightarrow> case_lookup ranges special c
      | None \<Rightarrow> [c])"

definition upper_blocks ::
  "(nat \<times> (nat \<times> nat \<times> nat \<times> int) list \<times> (nat \<times> nat list) list) list" where
  "upper_blocks =
     [(429,
        [(181, 181, 1, 743), (224, 246, 1, - 32), (248, 254, 1, - 32), (255, 255, 1, 121),
         (257, 303, 2, - 1), (305, 305, 1, - 232), (307, 311, 2, - 1), (314, 328, 2, - 1),
         (331, 375, 2, - 1), (378, 382, 2, - 1), (383, 383, 1, - 300), (384, 384, 1, 195),
         (387, 389, 2, - 1), (392, 392, 1, - 1), (396, 396, 1, - 1), (402, 402, 1, - 1),
         (405, 405, 1, 97), (409, 409, 1, - 1), (410, 410, 1, 163), (414, 414, 1, 130),
         (417, 421, 2, - 1), (424, 424, 1, - 1)],
        [(223, [83, 83]), (329, [700, 78])]),
      (583,
        [(429, 429, 1, - 1), (432, 432, 1, - 1), (436, 438, 2, - 1), (441, 441, 1, - 1),
         (445, 445, 1, - 1), (447, 447, 1, 56), (453, 453, 1, - 1), (454, 454, 1, - 2),
         (456, 456, 1, - 1), (457, 457, 1, - 2), (459, 459, 1, - 1), (460, 460, 1, - 2),
         (462, 476, 2, - 1), (477, 477, 1, - 79), (479, 495, 2, - 1), (498, 498, 1, - 1),
         (499, 499, 1, - 2), (501, 501, 1, - 1), (505, 543, 2, - 1), (547, 563, 2, - 1),
         (572, 572, 1, - 1), (575, 576, 1, 10815), (578, 578, 1, - 1)],
        [(496, [74, 780])]),
      (637,
        [(583, 591, 2, - 1), (592, 592, 1, 10783), (593, 593, 1, 10780), (594, 594, 1, 10782),
         (595, 595, 1, - 210), (596, 596, 1, - 206), (598, 599, 1, - 205),
         (601, 601, 1, - 202), (603, 603, 1, - 203), (604, 604, 1, 42319),
         (608, 608, 1, - 205), (609, 609, 1, 42315), (611, 611, 1, - 207),
         (613, 613, 1, 42280), (614, 614, 1, 42308), (616, 616, 1, - 209),
         (617, 617, 1, - 211), (618, 618, 1, 42308), (619, 619, 1, 10743),
         (620, 620, 1, 42305), (623, 623, 1, - 211), (625, 625, 1, 10749),
         (626, 626, 1, - 213), (629, 629, 1, - 214)],
        []),
      (973,
        [(637, 637, 1, 10727), (640, 640, 1, - 218), (642, 642, 1, 42307),
         (643, 643, 1, - 218), (647, 647, 1, 42282), (648, 648, 1, - 218), (649, 649, 1, - 69),
         (650, 651, 1, - 217), (652, 652, 1, - 71), (658, 658, 1, - 219), (669, 669, 1, 42261),
         (670, 670, 1, 42258), (837, 837, 1, 84), (881, 883, 2, - 1), (887, 887, 1, - 1),
         (891, 893, 1, 130), (940, 940, 1, - 38), (941, 943, 1, - 37), (945, 961, 1, - 32),
         (962, 962, 1, - 31), (963, 971, 1, - 32), (972, 972, 1, - 64)],
        [(912, [921, 776, 769]), (944, [933, 776, 769])]),
      (4349,
        [(973, 974, 1, - 63), (976, 976, 1, - 62), (977, 977, 1, - 57), (981, 981, 1, - 47),
         (982, 982, 1, - 54), (983, 983, 1, - 8), (985, 1007, 2, - 1), (1008, 1008, 1, - 86),
         (1009, 1009, 1, - 80), (1010, 1010, 1, 7), (1011, 1011, 1, - 116),
         (1013, 1013, 1, - 96), (1016, 1016, 1, - 1), (1019, 1019, 1, - 1),
         (1072, 1103, 1, - 32), (1104, 1119, 1, - 80), (1121, 1153, 2, - 1),
         (1163, 1215, 2, - 1), (1218, 1230, 2, - 1), (1231, 1231, 1, - 15),
         (1233, 1327, 2, - 1), (1377, 1414, 1, - 48), (4304, 4346, 1, 3008)],
        [(1415, [1333, 1362])]),
      (7984,
        [(4349, 4351, 1, 3008), (5112, 5117, 1, - 8), (7296, 7296, 1, - 6254),
         (7297, 7297, 1, - 6253), (7298, 7298, 1, - 6244), (7299, 7300, 1, - 6242),
         (7301, 7301, 1, - 6243), (7302, 7302, 1, - 6236), (7303, 7303, 1, - 6181),
         (7304, 7304, 1, 35266), (7545, 7545, 1, 35332), (7549, 7549, 1, 3814),
         (7566, 7566, 1, 35384), (7681, 7829, 2, - 1), (7835, 7835, 1, - 59),
         (7841, 7935, 2, - 1), (7936, 7943, 1, 8), (7952, 7957, 1, 8), (7968, 7975, 1, 8)],
        [(7830, [72, 817]), (7831, [84, 776]), (7832, [87, 778]), (7833, [89, 778]),
         (7834, [65, 702])]),
      (8074,
        [(7984, 7991, 1, 8), (8000, 8005, 1, 8), (8017, 8023, 2, 8), (8032, 8039, 1, 8),
         (8048, 8049, 1, 74), (8050, 8053, 1, 86), (8054, 8055, 1, 100), (8056, 8057, 1, 128),
         (8058, 8059, 1, 112), (8060, 8061, 1, 126)],
        [(8016, [933, 787]), (8018, [933, 787, 768]), (8020, [933, 787, 769]),
         (8022, [933, 787, 834]), (8064, [7944, 921]), (8065, [7945, 921]),
         (8066, [7946, 921]), (8067, [7947, 921]), (8068, [7948, 921]), (8069, [7949, 921]),
         (8070, [7950, 921]), (8071, [7951, 921]), (8072, [7944, 921]), (8073, [7945, 921])]),
      (8098,
        [],
        [(8074, [7946, 921]), (8075, [7947, 921]), (8076, [7948, 921]), (8077, [7949, 921]),
         (8078, [7950, 921]), (8079, [7951, 921]), (8080, [7976, 921]), (8081, [7977, 921]),
         (8082, [7978, 921]), (8083, [7979, 921]), (8084, [7980, 921]), (8085, [7981, 921]),
         (8086, [7982, 921]), (8087, [7983, 921]), (8088, [7976, 921]), (8089, [7977, 921]),
         (8090, [7978, 921]), (8091, [7979, 921]), (8092, [7980, 921]), (8093, [7981, 921]),
         (8094, [7982, 921]), (8095, [7983, 921]), (8096, [8040, 921]), (8097, [8041, 921])]),
      (8132,
        [(8112, 8113, 1, 8), (8126, 8126, 1, - 7205)],
        [(8098, [8042, 921]), (8099, [8043, 921]), (8100, [8044, 921]), (8101, [8045, 921]),
         (8102, [8046, 921]), (8103, [8047, 921]), (8104, [8040, 921]), (8105, [8041, 921]),
         (8106, [8042, 921]), (8107, [8043, 921]), (8108, [8044, 921]), (8109, [8045, 921]),
         (8110, [8046, 921]), (8111, [8047, 921]), (8114, [8122, 921]), (8115, [913, 921]),
         (8116, [902, 921]), (8118, [913, 834]), (8119, [913, 834, 921]), (8124, [913, 921]),
         (8130, [8138, 921]), (8131, [919, 921])]),
      (8580,
        [(8144, 8145, 1, 8), (8160, 8161, 1, 8), (8165, 8165, 1, 7), (8526, 8526, 1, - 28),
         (8560, 8575, 1, - 16)],
        [(8132, [905, 921]), (8134, [919, 834]), (8135, [919, 834, 921]), (8140, [919, 921]),
         (8146, [921, 776, 768]), (8147, [921, 776, 769]), (8150, [921, 834]),
         (8151, [921, 776, 834]), (8162, [933, 776, 768]), (8163, [933, 776, 769]),
         (8164, [929, 787]), (8166, [933, 834]), (8167, [933, 776, 834]), (8178, [8186, 921]),
         (8179, [937, 921]), (8180, [911, 921]), (8182, [937, 834]), (8183, [937, 834, 921]),
         (8188, [937, 921])]),
      (42903,
        [(8580, 8580, 1, - 1), (9424, 9449, 1, - 26), (11312, 11359, 1, - 48),
         (11361, 11361, 1, - 1), (11365, 11365, 1, - 10795), (11366, 11366, 1, - 10792),
         (11368, 11372, 2, - 1), (11379, 11379, 1, - 1), (11382, 11382, 1, - 1),
         (11393, 11491, 2, - 1), (11500, 11502, 2, - 1), (11507, 11507, 1, - 1),
         (11520, 11557, 1, - 7264), (11559, 11559, 1, - 7264), (11565, 11565, 1, - 7264),
         (42561, 42605, 2, - 1), (42625, 42651, 2, - 1), (42787, 42799, 2, - 1),
         (42803, 42863, 2, - 1), (42874, 42876, 2, - 1), (42879, 42887, 2, - 1),
         (42892, 42892, 1, - 1), (42897, 42899, 2, - 1), (42900, 42900, 1, 48)],
        []),
      (67004,
        [(42903, 42921, 2, - 1), (42933, 42947, 2, - 1), (42952, 42954, 2, - 1),
         (42961, 42961, 1, - 1), (42967, 42969, 2, - 1), (42998, 42998, 1, - 1),
         (43859, 43859, 1, - 928), (43888, 43967, 1, - 38864), (65345, 65370, 1, - 32),
         (66600, 66639, 1, - 40), (66776, 66811, 1, - 40), (66967, 67003, 2, - 39),
         (66968, 66976, 2, - 39), (66980, 66992, 2, - 39), (66996, 67000, 2, - 39)],
        [(64256, [70, 70]), (64257, [70, 73]), (64258, [70, 76]), (64259, [70, 70, 73]),
         (64260, [70, 70, 76]), (64261, [83, 84]), (64262, [83, 84]), (64275, [1348, 1350]),
         (64276, [1348, 1333]), (64277, [1348, 1339]), (64278, [1358, 1350]),
         (64279, [1348, 1341])]),
      (125252,
        [(67004, 67004, 1, - 39), (68800, 68850, 1, - 64), (71872, 71903, 1, - 32),
         (93792, 93823, 1, - 32), (125218, 125251, 1, - 34)],
        [])]"

definition lower_blocks ::
  "(nat \<times> (nat \<times> nat \<times> nat \<times> int) list \<times> (nat \<times> nat list) list) list" where
  "lower_blocks =
     [(412,
        [(192, 214, 1, 32), (216, 222, 1, 32), (256, 302, 2, 1), (306, 310, 2, 1),
         (313, 327, 2, 1), (330, 374, 2, 1), (376, 376, 1, - 121), (377, 381, 2, 1),
         (385, 385, 1, 210), (386, 388, 2, 1), (390, 390, 1, 206), (391, 391, 1, 1),
         (393, 394, 1, 205), (395, 395, 1, 1), (398, 398, 1, 79), (399, 399, 1, 202),
         (400, 400, 1, 203), (401, 401, 1, 1), (403, 403, 1, 205), (404, 404, 1, 207),
         (406, 406, 1, 211), (407, 407, 1, 209), (408, 408, 1, 1)],
        [(304, [105, 775])]),
      (502,
        [(412, 412, 1, 211), (413, 413, 1, 213), (415, 415, 1, 214), (416, 420, 2, 1),
         (422, 422, 1, 218), (423, 423, 1, 1), (425, 425, 1, 218), (428, 428, 1, 1),
         (430, 430, 1, 218), (431, 431, 1, 1), (433, 434, 1, 217), (435, 437, 2, 1),
         (439, 439, 1, 219), (440, 440, 1, 1), (444, 444, 1, 1), (452, 452, 1, 2),
         (453, 453, 1, 1), (455, 455, 1, 2), (456, 456, 1, 1), (458, 458, 1, 2),
         (459, 475, 2, 1), (478, 494, 2, 1), (497, 497, 1, 2), (498, 500, 2, 1)],
        []),
      (984,
        [(502, 502, 1, - 97), (503, 503, 1, - 56), (504, 542, 2, 1), (544, 544, 1, - 130),
         (546, 562, 2, 1), (570, 570, 1, 10795), (571, 571, 1, 1), (573, 573, 1, - 163),
         (574, 574, 1, 10792), (577, 577, 1, 1), (579, 579, 1, - 195), (580, 580, 1, 69),
         (581, 581, 1, 71), (582, 590, 2, 1), (880, 882, 2, 1), (886, 886, 1, 1),
         (895, 895, 1, 116), (902, 902, 1, 38), (904, 906, 1, 37), (908, 908, 1, 64),
         (910, 911, 1, 63), (913, 929, 1, 32), (931, 939, 1, 32), (975, 975, 1, 8)],
        []),
      (7944,
        [(984, 1006, 2, 1), (1012, 1012, 1, - 60), (1015, 1015, 1, 1), (1017, 1017, 1, - 7),
         (1018, 1018, 1, 1), (1021, 1023, 1, - 130), (1024, 1039, 1, 80), (1040, 1071, 1, 32),
         (1120, 1152, 2, 1), (1162, 1214, 2, 1), (1216, 1216, 1, 15), (1217, 1229, 2, 1),
         (1232, 1326, 2, 1), (1329, 1366, 1, 48), (4256, 4293, 1, 7264), (4295, 4295, 1, 7264),
         (4301, 4301, 1, 7264), (5024, 5103, 1, 38864), (5104, 5109, 1, 8),
         (7312, 7354, 1, - 3008), (7357, 7359, 1, - 3008), (7680, 7828, 2, 1),
         (7838, 7838, 1, - 7615), (7840, 7934, 2, 1)],
        []),
      (8490,
        [(7944, 7951, 1, - 8), (7960, 7965, 1, - 8), (7976, 7983, 1, - 8),
         (7992, 7999, 1, - 8), (8008, 8013, 1, - 8), (8025, 8031, 2, - 8),
         (8040, 8047, 1, - 8), (8072, 8079, 1, - 8), (8088, 8095, 1, - 8),
         (8104, 8111, 1, - 8), (8120, 8121, 1, - 8), (8122, 8123, 1, - 74),
         (8124, 8124, 1, - 9), (8136, 8139, 1, - 86), (8140, 8140, 1, - 9),
         (8152, 8153, 1, - 8), (8154, 8155, 1, - 100), (8168, 8169, 1, - 8),
         (8170, 8171, 1, - 112), (8172, 8172, 1, - 7), (8184, 8185, 1, - 128),
         (8186, 8187, 1, - 126), (8188, 8188, 1, - 9), (8486, 8486, 1, - 7517)],
        []),
      (42786,
        [(8490, 8490, 1, - 8383), (8491, 8491, 1, - 8262), (8498, 8498, 1, 28),
         (8544, 8559, 1, 16), (8579, 8579, 1, 1), (9398, 9423, 1, 26), (11264, 11311, 1, 48),
         (11360, 11360, 1, 1), (11362, 11362, 1, - 10743), (11363, 11363, 1, - 3814),
         (11364, 11364, 1, - 10727), (11367, 11371, 2, 1), (11373, 11373, 1, - 10780),
         (11374, 11374, 1, - 10749), (11375, 11375, 1, - 10783), (11376, 11376, 1, - 10782),
         (11378, 11378, 1, 1), (11381, 11381, 1, 1), (11390, 11391, 1, - 10815),
         (11392, 11490, 2, 1), (11499, 11501, 2, 1), (11506, 11506, 1, 1),
         (42560, 42604, 2, 1), (42624, 42650, 2, 1)],
        []),
      (42966,
        [(42786, 42798, 2, 1), (42802, 42862, 2, 1), (42873, 42875, 2, 1),
         (42877, 42877, 1, - 35332), (42878, 42886, 2, 1), (42891, 42891, 1, 1),
         (42893, 42893, 1, - 42280), (42896, 42898, 2, 1), (42902, 42920, 2, 1),
         (42922, 42922, 1, - 42308), (42923, 42923, 1, - 42319), (42924, 42924, 1, - 42315),
         (42925, 42925, 1, - 42305), (42926, 42926, 1, - 42308), (42928, 42928, 1, - 42258),
         (42929, 42929, 1, - 42282), (42930, 42930, 1, - 42261), (42931, 42931, 1, 928),
         (42932, 42946, 2, 1), (42948, 42948, 1, - 48), (42949, 42949, 1, - 42307),
         (42950, 42950, 1, - 35384), (42951, 42953, 2, 1), (42960, 42960, 1, 1)],
        []),
      (125218,
        [(42966, 42968, 2, 1), (42997, 42997, 1, 1), (65313, 65338, 1, 32),
         (66560, 66599, 1, 40), (66736, 66771, 1, 40), (66928, 66964, 2, 39),
         (66929, 66937, 2, 39), (66941, 66953, 2, 39), (66957, 66961, 2, 39),
         (66965, 66965, 1, 39), (68736, 68786, 1, 64), (71840, 71871, 1, 32),
         (93760, 93791, 1, 32), (125184, 125217, 1, 34)],
        [])]"

definition upper_cp :: "nat \<Rightarrow> nat list" where
  "upper_cp c =
     (if c < 128 then [if 97 \<le> c \<and> c \<le> 122 then c - 32 else c]
      else block_lookup upper_blocks c)"

definition lower_cp :: "nat \<Rightarrow> nat list" where
  "lower_cp c =
     (if c < 128 then [if 65 \<le> c \<and> c \<le> 90 then c + 32 else c]
      else block_lookup lower_blocks c)"

definition upper :: "pystr \<Rightarrow> pystr" where
  "upper s = concat (map upper_cp s)"

fun str_nat :: "nat \<Rightarrow> string" where
  "str_nat n =
     (if n < 10 then [char_of (48 + n)] else str_nat (n div 10) @ [char_of (48 + n mod 10)])"

definition login :: "ui \<Rightarrow> session_state \<Rightarrow> database \<Rightarrow> session_state \<times> element list" where
  "login u ss db =
     (if login_button u
      then (if authenticate_user (login_username u) (login_password u) db
            then (ss(''authenticated'' \<mapsto> True), [Title ''Login'', Success ''Login successful!''])
            else (ss, [Title ''Login'', Error ''Invalid username or password.'']))
      else (ss, [Title ''Login'']))"

definition register :: "ui \<Rightarrow> database \<Rightarrow> database \<times> element list" where
  "register u db =
     (if register_button u
      then (if fst (register_user (register_username u) (register_password u) db)
            then (snd (register_user (register_username u) (register_password u) db),
                  [Title ''Register'', Success ''Registration successful! Please log in.''])
            else (snd (register_user (register_username u) (register_password u) db),
                  [Title ''Register'',
                   Error ''Username already exists. Please choose another username.'']))
      else (db, [Title ''Register'']))"

definition logout :: "session_state \<Rightarrow> session_state \<times> element list" where
  "logout ss = (ss(''authenticated'' \<mapsto> False), [Info ''You have logged out.''])"

definition data_empty :: "price_table \<Rightarrow> bool" where
  \<comment> \<open>DataFrame.empty: no rows\<close>
  "data_empty data = (index data = [])"

definition charts :: "ui \<Rightarrow> pystr \<Rightarrow> price_table \<Rightarrow> element list" where
  \<comment> \<open>the four tabs, in the order in which the script fills them\<close>
  "charts u ticker data =
     (let close = Close data;
          derived =
            [(''MA'' @ str_nat (ma_days u), MA (ma_days u) close),
             (''MA'', MA (bb_window u) close),
             (''Std'', Std (bb_window u) close),
             (''Upper Band'', Upper_Band (bb_window u) close),
             (''Lower Band'', Lower_Band (bb_window u) close),
             (''RSI'', RSI (rsi_period u) close),
             (''MACD'', MACD close),
             (''Signal Line'', Signal_Line close)]
      in [Plotly_chart (str ''Harga Saham '' @ ticker)
            [(''Open'', Open data), (''High'', High data), (''Low'', Low data),
             (''Close'', close),
             (''MA '' @ str_nat (ma_days u), MA (ma_days u) close),
             (''Upper Band'', Upper_Band (bb_window u) close),
             (''Lower Band'', Lower_Band (bb_window u) close)],
          Plotly_chart (str ''RSI '' @ ticker) [(''RSI'', RSI (rsi_period u) close)],
          Plotly_chart (str ''MACD '' @ ticker)
            [(''MACD'', MACD close), (''Signal Line'', Signal_Line close)]]
         @ (if show_data_table u
            then [Dataframe ([(''Open'', Open data), (''High'', High data), (''Low'', Low data),
                              (''Close'', close)] @ derived)]
            else []))"

definition main_app ::
  "(pystr \<Rightarrow> date \<Rightarrow> date \<Rightarrow> string + price_table) \<Rightarrow> ui \<Rightarrow> element list" where
  \<comment> \<open>\<open>yf_download\<close> is the provider: \<open>Inl e\<close> is an exception with text \<open>e\<close>. Each call
      of it is recorded as a \<open>Download\<close> element.\<close>
  "main_app yf_download u =
     (let ticker = upper (ticker_input u)
      in Title ''Interactive Stock Candlestick App'' #
         (if start_date u > end_date u
          then [Error ''Start date must be before end date.'', Stop]
          else Download ticker (start_date u) (end_date u) #
               (case yf_download ticker (start_date u) (end_date u) of
                  Inl e \<Rightarrow>
                    [Error (''An error occurred: '' @ e @
                            ''. Please check the ticker symbol and date range.'')]
                | Inr data \<Rightarrow>
                    if data_empty data
                    then [Warning (str ''No data found for ticker '' @ ticker @
                                   str '' in the selected date range.'')]
                    else charts u ticker data)))"

definition authenticated :: "session_state \<Rightarrow> bool" where
  \<comment> \<open>the flag as the script reads it: an absent key is first set to False\<close>
  "authenticated ss = (case ss ''authenticated'' of None \<Rightarrow> False | Some b \<Rightarrow> b)"

definition script ::
  "(pystr \<Rightarrow> date \<Rightarrow> date \<Rightarrow> string + price_table) \<Rightarrow> ui \<Rightarrow>
   session_state \<times> database \<Rightarrow> (session_state \<times> database) \<times> element list" where
  "script yf_download u st =
     (let ss = (if ''authenticated'' \<notin> dom (fst st)
                then (fst st)(''authenticated'' \<mapsto> False) else fst st);
          db = snd st
      in if \<not> authenticated ss
         then (case menu_choice u of
                 Login \<Rightarrow> ((fst (login u ss db), db), snd (login u ss db))
               | Register \<Rightarrow> ((ss, fst (register u db)), snd (register u db)))
         else if logout_button u
              then ((fst (logout ss), db), snd (logout ss))
              else ((ss, db), main_app yf_download u))"

text \<open>
  Two code points that are one letter in two cases: one of them is the lower-case or the
  upper-case mapping of the other. Two ticker inputs differ only in letter case when they
  agree in this sense code point by code point.
\<close>

definition same_letter :: "nat \<Rightarrow> nat \<Rightarrow> bool" where
  "same_letter c d =
     (c = d \<or> lower_cp c = [d] \<or> lower_cp d = [c] \<or> upper_cp c = [d] \<or> upper_cp d = [c])"

definition differ_only_in_case :: "pystr \<Rightarrow> pystr \<Rightarrow> bool" where
  "differ_only_in_case s t = list_all2 same_letter s t"

text \<open>
  A letter and its capital: \<open>str.upper()\<close> sends the one to the other and leaves the
  capital as it is.
\<close>

definition capital_of :: "nat \<Rightarrow> nat \<Rightarrow> bool" where
  "capital_of c d = (upper_cp c = [d] \<and> upper_cp d = [d])"

definition case_variant :: "nat \<Rightarrow> nat \<Rightarrow> bool" where
  "case_variant c d = (c = d \<or> capital_of c d \<or> capital_of d c)"

text \<open>A provider that raises for every request.\<close>

definition failing_download :: "pystr \<Rightarrow> date \<Rightarrow> date \<Rightarrow> string + price_table" where
  "failing_download ticker start end = Inl ''no connection''"

text \<open>
  The widget values of a run that shows the chart page for a ticker and two dates, with
  the sliders at their default values and the data table hidden.
\<close>

definition chart_inputs :: "pystr \<Rightarrow> date \<Rightarrow> date \<Rightarrow> ui" where
  "chart_inputs ticker start end =
     \<lparr>menu_choice = Login, login_username = [], login_password = [], login_button = False,
      register_username = [], register_password = [], register_button = False,
      logout_button = False, ticker_input = ticker, start_date = start, end_date = end,
      ma_days = 20, bb_window = 20, rsi_period = 14, show_data_table = False\<rparr>"

section \<open>Properties of the credential store\<close>


lemma fetchone_None_iff: "fetchone rows = None \<longleftrightarrow> rows = []"
  by (simp add: fetchone_def split: list.splits)

lemma authenticate_user_iff:
  "authenticate_user uname pw db \<longleftrightarrow>
     (\<exists>r \<in> set (users db). username r = uname \<and> password r = pw)"
  by (auto simp: authenticate_user_def fetchone_None_iff filter_empty_conv)


lemma register_user_taken: "taken uname db \<Longrightarrow> register_user uname pw db = (False, db)"
  by (simp add: register_user_def taken_def)

lemma register_user_fresh:
  "\<not> taken uname db \<Longrightarrow>
   register_user uname pw db =
     (True, \<lparr>users = users db @ [\<lparr>uid = Suc (seq db), username = uname, password = pw\<rparr>],
            seq = Suc (seq db)\<rparr>)"
  by (simp add: register_user_def taken_def)

lemma taken_after_register: "taken uname (snd (register_user uname pw db))"
  by (auto simp: register_user_def taken_def)

lemma taken_mono: "taken uname db \<Longrightarrow> taken uname (snd (register_user v pw db))"
  by (auto simp: register_user_def taken_def)

lemma distinct_register_user:
  "distinct (map username (users db)) \<Longrightarrow>
   distinct (map username (users (snd (register_user uname pw db))))"
  by (auto simp: register_user_def)

lemma accepted_Cons:
  "accepted uname db (c # cs) =
     (if fst c = uname \<and> fst (register_user (fst c) (snd c) db) then 1 else 0) +
     accepted uname (snd (register_user (fst c) (snd c) db)) cs"
  by (cases c) (auto simp: accepted_def)

lemma accepted_taken: "taken uname db \<Longrightarrow> accepted uname db cs = 0"
proof (induction cs arbitrary: db)
  case Nil
  show ?case by (simp add: accepted_def)
next
  case (Cons c cs)
  have "accepted uname (snd (register_user (fst c) (snd c) db)) cs = 0"
    using Cons.IH Cons.prems taken_mono by blast
  moreover have "fst c = uname \<Longrightarrow> \<not> fst (register_user (fst c) (snd c) db)"
    using Cons.prems by (simp add: register_user_taken)
  ultimately show ?case by (simp add: accepted_Cons)
qed

lemma stored_password_after:
  "\<not> taken uname db \<Longrightarrow> stored_password uname (snd (register_user uname pw db)) = Some pw"
  by (auto simp: register_user_fresh stored_password_def taken_def fetchone_def filter_empty_conv split: list.splits)

text \<open>
  Claim C2. When the user name is not yet in the table, \<open>register_user\<close> returns True
  and \<open>authenticate_user\<close> with the same pair then returns True; a second
  \<open>register_user\<close> with that user name, whatever the password, returns False and leaves
  the store as it was, so the stored password is still the first one; and of the calls
  for that user name in any sequence of registrations that follows, exactly one (the
  first) returns True.
\<close>

theorem register_then_authenticate:
  assumes "\<not> (\<exists>r \<in> set (users db). username r = uname)"
  shows "fst (register_user uname pw db) \<and>
         authenticate_user uname pw (snd (register_user uname pw db)) \<and>
         register_user uname pw' (snd (register_user uname pw db)) =
           (False, snd (register_user uname pw db)) \<and>
         stored_password uname (snd (register_user uname pw db)) = Some pw \<and>
         accepted uname db ((uname, pw) # cs) = 1"
proof -
  have fresh: "\<not> taken uname db" using assms by (simp add: taken_def)
  have 1: "fst (register_user uname pw db)" using fresh by (simp add: register_user_fresh)
  have 2: "authenticate_user uname pw (snd (register_user uname pw db))"
    using fresh by (simp add: register_user_fresh authenticate_user_iff)
  have 3: "register_user uname pw' (snd (register_user uname pw db)) =
           (False, snd (register_user uname pw db))"
    by (rule register_user_taken) (rule taken_after_register)
  have 4: "stored_password uname (snd (register_user uname pw db)) = Some pw"
    using fresh by (rule stored_password_after)
  have 5: "accepted uname db ((uname, pw) # cs) = 1"
    using 1 accepted_taken [OF taken_after_register, of uname pw db cs]
    by (simp add: accepted_Cons)
  from 1 2 3 4 5 show ?thesis by blast
qed

theorem register_then_authenticate_witness:
  "fst (register_user ''ana'' ''s3cret'' \<lparr>users = [], seq = 0\<rparr>) \<and>
   authenticate_user ''ana'' ''s3cret'' (snd (register_user ''ana'' ''s3cret'' \<lparr>users = [], seq = 0\<rparr>)) \<and>
   register_user ''ana'' ''other'' (snd (register_user ''ana'' ''s3cret'' \<lparr>users = [], seq = 0\<rparr>)) =
     (False, \<lparr>users = [\<lparr>uid = 1, username = ''ana'', password = ''s3cret''\<rparr>], seq = 1\<rparr>) \<and>
   accepted ''ana'' \<lparr>users = [], seq = 0\<rparr> [(''ana'', ''s3cret''), (''bob'', ''x''), (''ana'', ''other'')] = 1"
  using register_then_authenticate [of "\<lparr>users = [], seq = 0\<rparr>" "''ana''" "''s3cret''" "''other''"
      "[(''bob'', ''x''), (''ana'', ''other'')]"]
  by (simp add: register_user_def)

text \<open>
  Claim C7. \<open>authenticate_user\<close> returns True if and only if some row has exactly this
  user name and exactly this password (equality of strings, so letter case counts); with
  user names unique, as the table keeps them, a password other than the stored one of a
  row gives False.
\<close>

theorem authenticate_exact_match:
  "(authenticate_user uname pw db \<longleftrightarrow>
      (\<exists>r \<in> set (users db). username r = uname \<and> password r = pw)) \<and>
   (distinct (map username (users db)) \<longrightarrow> r \<in> set (users db) \<longrightarrow>
      (authenticate_user (username r) pw db \<longleftrightarrow> pw = password r))"
proof -
  have "authenticate_user (username r) pw db \<longleftrightarrow> pw = password r"
    if d: "distinct (map username (users db))" and r: "r \<in> set (users db)"
  proof
    assume "authenticate_user (username r) pw db"
    then obtain r' where r': "r' \<in> set (users db)" "username r' = username r" "password r' = pw"
      by (auto simp: authenticate_user_iff)
    from d r r' have "r' = r" by (meson distinct_map inj_onD)
    with r' show "pw = password r" by simp
  next
    assume "pw = password r"
    with r show "authenticate_user (username r) pw db" by (auto simp: authenticate_user_iff)
  qed
  then show ?thesis by (simp add: authenticate_user_iff)
qed

theorem authenticate_exact_match_witness:
  "authenticate_user ''ana'' ''Secret'' \<lparr>users = [\<lparr>uid = 1, username = ''ana'', password = ''Secret''\<rparr>], seq = 1\<rparr> \<and>
   \<not> authenticate_user ''ana'' ''secret'' \<lparr>users = [\<lparr>uid = 1, username = ''ana'', password = ''Secret''\<rparr>], seq = 1\<rparr> \<and>
   \<not> authenticate_user ''Ana'' ''Secret'' \<lparr>users = [\<lparr>uid = 1, username = ''ana'', password = ''Secret''\<rparr>], seq = 1\<rparr>"
  using authenticate_exact_match [of "''ana''" "''Secret''" "\<lparr>users = [\<lparr>uid = 1, username = ''ana'', password = ''Secret''\<rparr>], seq = 1\<rparr>" "\<lparr>uid = 1, username = ''ana'', password = ''Secret''\<rparr>"]
    authenticate_exact_match [of "''ana''" "''secret''" "\<lparr>users = [\<lparr>uid = 1, username = ''ana'', password = ''Secret''\<rparr>], seq = 1\<rparr>" "\<lparr>uid = 1, username = ''ana'', password = ''Secret''\<rparr>"]
    authenticate_exact_match [of "''Ana''" "''Secret''" "\<lparr>users = [\<lparr>uid = 1, username = ''ana'', password = ''Secret''\<rparr>], seq = 1\<rparr>" "\<lparr>uid = 1, username = ''ana'', password = ''Secret''\<rparr>"]
  by simp

section \<open>Properties of the page\<close>


lemma charts_ticker_input: "charts (u\<lparr>ticker_input := t'\<rparr>) ticker data = charts u ticker data"
  by (simp add: charts_def)

lemma Download_charts: "Download t s e \<notin> set (charts u ticker data)"
  by (simp add: charts_def Let_def)

text \<open>
  Claim C8. When the start date is after the end date, \<open>main_app\<close> shows the title and the
  date-order error and stops: the run shows nothing else, it makes no download, and its
  output does not depend on the provider.
\<close>

theorem date_order_rejected:
  assumes "start_date u > end_date u"
  shows "main_app yf_download u =
           [Title ''Interactive Stock Candlestick App'',
            Error ''Start date must be before end date.'', Stop] \<and>
         (\<forall>t s e. Download t s e \<notin> set (main_app yf_download u)) \<and>
         main_app yf_download u = main_app other_download u"
  using assms by (simp add: main_app_def Let_def)

theorem date_order_rejected_witness:
  "main_app (\<lambda>t s e. Inl ''unreachable'')
     \<lparr>menu_choice = Login, login_username = [], login_password = [], login_button = False,
      register_username = [], register_password = [], register_button = False,
      logout_button = False, ticker_input = str ''AAPL'', start_date = (2021, 6, 1),
      end_date = (2021, 1, 1), ma_days = 20, bb_window = 20, rsi_period = 14,
      show_data_table = False\<rparr> =
   [Title ''Interactive Stock Candlestick App'',
    Error ''Start date must be before end date.'', Stop]"
  using date_order_rejected [of "\<lparr>menu_choice = Login, login_username = [], login_password = [], login_button = False,
      register_username = [], register_password = [], register_button = False,
      logout_button = False, ticker_input = str ''AAPL'', start_date = (2021, 6, 1),
      end_date = (2021, 1, 1), ma_days = 20, bb_window = 20, rsi_period = 14,
      show_data_table = False\<rparr>" "\<lambda>t s e. Inl ''unreachable''"]
  by simp

subsection \<open>The ticker\<close>

lemmas upper_eval = upper_def upper_cp_def block_lookup_def case_lookup_def upper_blocks_def
lemmas lower_eval = lower_cp_def block_lookup_def case_lookup_def lower_blocks_def

lemma upper_cp_ascii:
  "c < 128 \<Longrightarrow> upper_cp c = [if 97 \<le> c \<and> c \<le> 122 then c - 32 else c]"
  by (simp add: upper_cp_def)

lemma lower_cp_ascii:
  "c < 128 \<Longrightarrow> lower_cp c = [if 65 \<le> c \<and> c \<le> 90 then c + 32 else c]"
  by (simp add: lower_cp_def)

lemma upper_ascii:
  "\<forall>c \<in> set s. c < 128 \<Longrightarrow>
   upper s = map (\<lambda>c. if 97 \<le> c \<and> c \<le> 122 then c - 32 else c) s"
  by (induction s) (simp_all add: upper_def upper_cp_ascii)

lemma upper_cp_variant: "case_variant c d \<Longrightarrow> upper_cp c = upper_cp d"
  by (auto simp: case_variant_def capital_of_def)

lemma upper_variant: "list_all2 case_variant s t \<Longrightarrow> upper s = upper t"
  unfolding upper_def by (induction rule: list_all2_induct) (simp_all add: upper_cp_variant)

lemma capital_of_ascii: "97 \<le> c \<Longrightarrow> c \<le> 122 \<Longrightarrow> capital_of c (c - 32)"
  by (auto simp: capital_of_def upper_cp_ascii)

lemma same_letter_ascii:
  assumes "same_letter c d" and "c < 128" and "d < 128"
  shows "upper_cp c = upper_cp d"
  using assms by (auto simp: same_letter_def upper_cp_ascii lower_cp_ascii split: if_splits)

lemma upper_differ_ascii:
  assumes "differ_only_in_case s t" and "\<forall>c \<in> set s. c < 128" and "\<forall>c \<in> set t. c < 128"
  shows "upper s = upper t"
  using assms unfolding differ_only_in_case_def upper_def
  by (induction rule: list_all2_induct) (simp_all add: same_letter_ascii)


text \<open>
  Claim C10, as the code has it. When the dates are in order, \<open>main_app\<close> makes its
  download right after the title, with \<open>str.upper()\<close> of the ticker input and the two
  dates, and makes no other download; on an ASCII input the requested ticker is the
  input with a..z replaced by A..Z. An input that agrees with this one code point by
  code point, up to replacing a letter by its capital, gives the same run: the same
  request and, the provider being a function of the request, the same output. So does
  an ASCII input that differs from this ASCII input only in letter case.
\<close>

theorem fetch_uses_upper_ticker:
  assumes "\<not> start_date u > end_date u"
  shows "main_app yf_download u ! 1 =
           Download (upper (ticker_input u)) (start_date u) (end_date u) \<and>
         (\<forall>t s e. Download t s e \<in> set (main_app yf_download u) \<longrightarrow>
            t = upper (ticker_input u) \<and> s = start_date u \<and> e = end_date u) \<and>
         ((\<forall>c \<in> set (ticker_input u). c < 128) \<longrightarrow>
            upper (ticker_input u) =
              map (\<lambda>c. if 97 \<le> c \<and> c \<le> 122 then c - 32 else c) (ticker_input u)) \<and>
         (list_all2 case_variant (ticker_input u) t' \<longrightarrow>
            main_app yf_download (u\<lparr>ticker_input := t'\<rparr>) = main_app yf_download u) \<and>
         (differ_only_in_case (ticker_input u) t' \<and>
          (\<forall>c \<in> set (ticker_input u). c < 128) \<and> (\<forall>c \<in> set t'. c < 128) \<longrightarrow>
            main_app yf_download (u\<lparr>ticker_input := t'\<rparr>) = main_app yf_download u)"
proof -
  have 1: "main_app yf_download u ! 1 =
           Download (upper (ticker_input u)) (start_date u) (end_date u)"
    using assms by (simp add: main_app_def Let_def)
  have 2: "t = upper (ticker_input u) \<and> s = start_date u \<and> e = end_date u"
    if "Download t s e \<in> set (main_app yf_download u)" for t s e
    using that assms
    by (auto simp: main_app_def Let_def Download_charts split: sum.splits if_splits)
  have 3: "upper (ticker_input u) =
             map (\<lambda>c. if 97 \<le> c \<and> c \<le> 122 then c - 32 else c) (ticker_input u)"
    if "\<forall>c \<in> set (ticker_input u). c < 128"
    using that by (rule upper_ascii)
  have same: "main_app yf_download (u\<lparr>ticker_input := t'\<rparr>) = main_app yf_download u"
    if "upper t' = upper (ticker_input u)"
    using that by (simp add: main_app_def Let_def charts_ticker_input split: sum.split)
  have 4: "main_app yf_download (u\<lparr>ticker_input := t'\<rparr>) = main_app yf_download u"
    if "list_all2 case_variant (ticker_input u) t'"
    using that by (intro same) (simp add: upper_variant)
  have 5: "main_app yf_download (u\<lparr>ticker_input := t'\<rparr>) = main_app yf_download u"
    if "differ_only_in_case (ticker_input u) t'" "\<forall>c \<in> set (ticker_input u). c < 128"
      "\<forall>c \<in> set t'. c < 128"
    using that by (intro same) (simp add: upper_differ_ascii)
  from 1 2 3 4 5 show ?thesis by blast
qed

lemma chart_inputs_sel:
  "ticker_input (chart_inputs tk s e) = tk"
  "start_date (chart_inputs tk s e) = s"
  "end_date (chart_inputs tk s e) = e"
  "(chart_inputs tk s e)\<lparr>ticker_input := t'\<rparr> = chart_inputs t' s e"
  by (simp_all add: chart_inputs_def)

theorem fetch_uses_upper_ticker_witness:
  "main_app (\<lambda>t s e. Inl []) (chart_inputs (str ''Brk.b'') (2020, 1, 1) (2021, 1, 1)) ! 1 =
     Download (str ''BRK.B'') (2020, 1, 1) (2021, 1, 1) \<and>
   main_app (\<lambda>t s e. Inl []) (chart_inputs (str ''bRK.B'') (2020, 1, 1) (2021, 1, 1)) =
     main_app (\<lambda>t s e. Inl []) (chart_inputs (str ''Brk.b'') (2020, 1, 1) (2021, 1, 1)) \<and>
   main_app (\<lambda>t s e. Inl []) (chart_inputs [233, 116] (2020, 1, 1) (2021, 1, 1)) =
     main_app (\<lambda>t s e. Inl []) (chart_inputs [201, 84] (2020, 1, 1) (2021, 1, 1))"
proof -
  have o: "\<not> ((2021, 1, 1) :: date) < (2020, 1, 1)" by simp
  note T1 = fetch_uses_upper_ticker
    [of "chart_inputs (str ''Brk.b'') (2020, 1, 1) (2021, 1, 1)" "\<lambda>t s e. Inl []" "str ''bRK.B''",
      unfolded chart_inputs_sel, OF o]
  note T2 = fetch_uses_upper_ticker
    [of "chart_inputs [201, 84] (2020, 1, 1) (2021, 1, 1)" "\<lambda>t s e. Inl []" "[233, 116]",
      unfolded chart_inputs_sel, OF o]
  have a: "\<forall>c \<in> set (str ''Brk.b''). c < 128" by (simp add: str_def)
  have b: "\<forall>c \<in> set (str ''bRK.B''). c < 128" by (simp add: str_def)
  have d: "differ_only_in_case (str ''Brk.b'') (str ''bRK.B'')"
    by (simp add: differ_only_in_case_def same_letter_def str_def upper_cp_ascii lower_cp_ascii)
  have v: "list_all2 case_variant [201, 84] [233, 116]"
    by (simp add: case_variant_def capital_of_def upper_cp_ascii)
       (simp add: upper_eval)
  have m: "map (\<lambda>c. if 97 \<le> c \<and> c \<le> 122 then c - 32 else c) (str ''Brk.b'') = str ''BRK.B''"
    by (simp add: str_def)
  from T1 a have "upper (str ''Brk.b'') =
      map (\<lambda>c. if 97 \<le> c \<and> c \<le> 122 then c - 32 else c) (str ''Brk.b'')" by blast
  with m have u: "upper (str ''Brk.b'') = str ''BRK.B''" by simp
  from T1 have "main_app (\<lambda>t s e. Inl []) (chart_inputs (str ''Brk.b'') (2020, 1, 1) (2021, 1, 1)) ! 1 =
     Download (upper (str ''Brk.b'')) (2020, 1, 1) (2021, 1, 1)" by blast
  with u have 1: "main_app (\<lambda>t s e. Inl []) (chart_inputs (str ''Brk.b'') (2020, 1, 1) (2021, 1, 1)) ! 1 =
     Download (str ''BRK.B'') (2020, 1, 1) (2021, 1, 1)" by simp
  from T1 a b d have 2:
    "main_app (\<lambda>t s e. Inl []) (chart_inputs (str ''bRK.B'') (2020, 1, 1) (2021, 1, 1)) =
     main_app (\<lambda>t s e. Inl []) (chart_inputs (str ''Brk.b'') (2020, 1, 1) (2021, 1, 1))" by blast
  from T2 v have 3:
    "main_app (\<lambda>t s e. Inl []) (chart_inputs [233, 116] (2020, 1, 1) (2021, 1, 1)) =
     main_app (\<lambda>t s e. Inl []) (chart_inputs [201, 84] (2020, 1, 1) (2021, 1, 1))" by blast
  from 1 2 3 show ?thesis by blast
qed

text \<open>
  The small sharp s (U+00DF) and the capital sharp s (U+1E9E) differ only in letter case,
  the first being the lower-case mapping of the second. As tickers they are requested as
  SS and as U+1E9E itself: two different requests.
\<close>

theorem fetch_case_counterexample:
  "differ_only_in_case [223] [7838] \<and>
   main_app failing_download (chart_inputs [223] (2020, 1, 1) (2021, 1, 1)) ! 1 =
     Download [83, 83] (2020, 1, 1) (2021, 1, 1) \<and>
   main_app failing_download (chart_inputs [7838] (2020, 1, 1) (2021, 1, 1)) ! 1 =
     Download [7838] (2020, 1, 1) (2021, 1, 1) \<and>
   main_app failing_download (chart_inputs [223] (2020, 1, 1) (2021, 1, 1)) ! 1 \<noteq>
     main_app failing_download (chart_inputs [7838] (2020, 1, 1) (2021, 1, 1)) ! 1"
  by (simp add: differ_only_in_case_def same_letter_def main_app_def Let_def chart_inputs_def
      upper_eval lower_eval)

subsection \<open>The session\<close>

text \<open>
  Claim C9. A session starts Anonymous. One run of the script takes the flag from false
  to true exactly when the Login page is shown, its button is pressed and
  \<open>authenticate_user\<close> accepts the pair; it takes the flag from true to false exactly when
  the Logout button is pressed; a run that shows the Register page, whatever
  \<open>register_user\<close> returns, leaves an Anonymous session Anonymous.
\<close>

theorem session_transitions:
  "\<not> authenticated Map.empty \<and>
   (authenticated (fst (fst (script yf_download u (ss, db)))) \<and> \<not> authenticated ss \<longleftrightarrow>
      \<not> authenticated ss \<and> menu_choice u = Login \<and> login_button u \<and>
      authenticate_user (login_username u) (login_password u) db) \<and>
   (\<not> authenticated (fst (fst (script yf_download u (ss, db)))) \<and> authenticated ss \<longleftrightarrow>
      authenticated ss \<and> logout_button u) \<and>
   (\<not> authenticated ss \<and> menu_choice u = Register \<longrightarrow>
      \<not> authenticated (fst (fst (script yf_download u (ss, db)))))"
proof -
  have init: "authenticated (if ''authenticated'' \<notin> dom ss then ss(''authenticated'' \<mapsto> False) else ss)
              = authenticated ss"
    by (auto simp: authenticated_def split: option.splits)
  show ?thesis
    by (cases "menu_choice u")
       (auto simp: script_def Let_def init login_def logout_def authenticated_def
             split: option.splits if_splits)
qed

theorem session_transitions_witness:
  "\<not> authenticated (fst (fst (script (\<lambda>t s e. Inl [])
       \<lparr>menu_choice = Register, login_username = [], login_password = [], login_button = False,
        register_username = ''ana'', register_password = ''pw'', register_button = True,
        logout_button = False, ticker_input = [], start_date = (2020, 1, 1),
        end_date = (2021, 1, 1), ma_days = 20, bb_window = 20, rsi_period = 14,
        show_data_table = False\<rparr>
       (Map.empty, \<lparr>users = [], seq = 0\<rparr>)))) \<and>
   authenticated (fst (fst (script (\<lambda>t s e. Inl [])
       \<lparr>menu_choice = Login, login_username = ''ana'', login_password = ''pw'', login_button = True,
        register_username = [], register_password = [], register_button = False,
        logout_button = False, ticker_input = [], start_date = (2020, 1, 1),
        end_date = (2021, 1, 1), ma_days = 20, bb_window = 20, rsi_period = 14,
        show_data_table = False\<rparr>
       (Map.empty, \<lparr>users = [\<lparr>uid = 1, username = ''ana'', password = ''pw''\<rparr>], seq = 1\<rparr>))))"
  using session_transitions [of "\<lambda>t s e. Inl []"
       "\<lparr>menu_choice = Register, login_username = [], login_password = [], login_button = False,
        register_username = ''ana'', register_password = ''pw'', register_button = True,
        logout_button = False, ticker_input = [], start_date = (2020, 1, 1),
        end_date = (2021, 1, 1), ma_days = 20, bb_window = 20, rsi_period = 14,
        show_data_table = False\<rparr>" Map.empty "\<lparr>users = [], seq = 0\<rparr>"]
    session_transitions [of "\<lambda>t s e. Inl []"
       "\<lparr>menu_choice = Login, login_username = ''ana'', login_password = ''pw'', login_button = True,
        register_username = [], register_password = [], register_button = False,
        logout_button = False, ticker_input = [], start_date = (2020, 1, 1),
        end_date = (2021, 1, 1), ma_days = 20, bb_window = 20, rsi_period = 14,
        show_data_table = False\<rparr>" Map.empty
       "\<lparr>users = [\<lparr>uid = 1, username = ''ana'', password = ''pw''\<rparr>], seq = 1\<rparr>"]
  by (simp add: authenticate_user_def fetchone_def authenticated_def)

section \<open>Properties of the indicators\<close>

subsection \<open>Rolling windows and the moving average\<close>


lemma length_rolling: "length (rolling w agg xs) = length xs"
  by (simp add: rolling_def)

lemma rolling_nth: "i < length xs \<Longrightarrow> rolling w agg xs ! i = agg (window w xs i)"
  by (simp add: rolling_def)

lemma window_nths: "i < length xs \<Longrightarrow> window w xs i = map ((!) xs) [Suc i - w..<Suc i]"
  unfolding window_def by (rule nth_equalityI) (auto simp del: upt_Suc simp: nth_map_upt)

lemma length_window: "i < length xs \<Longrightarrow> length (window w xs i) = min (Suc i) w"
  by (auto simp: window_nths)

lemma observed_Some: "observed (map (\<lambda>j. Some (g j)) js) = map g js"
  by (induction js) (simp_all add: observed_def)

lemma observed_map_Some: "observed (map Some ys) = ys"
  using observed_Some [of "\<lambda>y. y" ys] by simp

lemma window_map: "window w (map f xs) i = map f (window w xs i)"
  by (simp add: window_def drop_map take_map)

lemma sum_list_window:
  assumes "i < length xs"
  shows "sum_list (window w xs i) = (\<Sum>j = Suc i - w..i. xs ! j)"
proof -
  have "sum_list (window w xs i) = (\<Sum>j\<leftarrow>[Suc i - w..<Suc i]. xs ! j)"
    using assms by (simp add: window_nths)
  also have "\<dots> = (\<Sum>j = Suc i - w..<Suc i. xs ! j)"
    by (simp add: interv_sum_list_conv_sum_set_nat)
  also have "\<dots> = (\<Sum>j = Suc i - w..i. xs ! j)"
    by (simp add: atLeastLessThanSuc_atLeastAtMost)
  finally show ?thesis .
qed

lemma MA_nth_Some:
  assumes "i < length xs"
  shows "MA w (map Some xs) ! i =
           (if 1 \<le> w \<and> w \<le> Suc i then Some (sum_list (window w xs i) / real w) else None)"
proof -
  have "MA w (map Some xs) ! i = mean_agg w (map Some (window w xs i))"
    using assms by (simp add: MA_def rolling_mean_def rolling_nth window_map)
  moreover have len: "length (window w xs i) = min (Suc i) w"
    using assms by (rule length_window)
  moreover have "(window w xs i = []) = (w = 0)"
    using len by (cases "window w xs i") (auto simp: min_def split: if_splits)
  ultimately show ?thesis
    by (auto simp: mean_agg_def Let_def observed_map_Some min_def)
qed

lemma MA_scenario:
  "MA 5 (map Some [10, 11, 12, 13, 14, 15, 16, 17, 18, 19, 20]) =
        [None, None, None, None, Some 12, Some 13, Some 14, Some 15, Some 16, Some 17, Some 18]"
  by (simp add: MA_def rolling_mean_def rolling_def window_def mean_agg_def observed_def upt_rec)

text \<open>
  Claim C4. For a close column of numbers and a window w of at least 1, the moving
  average at row i is the mean of close[i-w+1..i] when i is at least w-1 and NaN before
  that. The witness is the scenario of the specification: eleven closes 10..20 and
  w = 5 give 12 at row 4 and 18 at row 10.
\<close>

theorem moving_average_window:
  assumes "1 \<le> w" and "i < length xs"
  shows "(w - 1 \<le> i \<longrightarrow>
            MA w (map Some xs) ! i = Some ((\<Sum>j = i + 1 - w..i. xs ! j) / real w)) \<and>
         (i < w - 1 \<longrightarrow> MA w (map Some xs) ! i = None) \<and>
         length (MA w (map Some xs)) = length xs"
proof -
  have "length (MA w (map Some xs)) = length xs"
    by (simp add: MA_def rolling_mean_def length_rolling)
  moreover have "MA w (map Some xs) ! i = Some ((\<Sum>j = i + 1 - w..i. xs ! j) / real w)"
    if "w - 1 \<le> i"
  proof -
    have "w \<le> Suc i" using that by linarith
    then show ?thesis using assms by (simp add: MA_nth_Some sum_list_window)
  qed
  moreover have "MA w (map Some xs) ! i = None" if "i < w - 1"
  proof -
    have "\<not> w \<le> Suc i" using that by linarith
    then show ?thesis using assms by (simp add: MA_nth_Some)
  qed
  ultimately show ?thesis by blast
qed


theorem moving_average_window_witness:
  "MA 5 (map Some [10, 11, 12, 13, 14, 15, 16, 17, 18, 19, 20]) ! 4 = Some 12 \<and>
   MA 5 (map Some [10, 11, 12, 13, 14, 15, 16, 17, 18, 19, 20]) ! 10 = Some 18 \<and>
   MA 5 (map Some [10, 11, 12, 13, 14, 15, 16, 17, 18, 19, 20]) ! 3 = None"
  using moving_average_window [of 5 4 "[10, 11, 12, 13, 14, 15, 16, 17, 18, 19, 20]"]
    moving_average_window [of 5 10 "[10, 11, 12, 13, 14, 15, 16, 17, 18, 19, 20]"]
    moving_average_window [of 5 3 "[10, 11, 12, 13, 14, 15, 16, 17, 18, 19, 20]"]
  by (simp add: sum.atLeast_Suc_atMost)

subsection \<open>The exponentially weighted mean, MACD and its signal line\<close>

lemma ewm_loop_constant:
  "ewm_loop \<alpha> (Some v) 1 (replicate n (Some v)) = replicate n (Some v)"
proof (induction n)
  case 0
  show ?case by simp
next
  case (Suc n)
  have "((1 - \<alpha>) * v + \<alpha> * v) / (1 - \<alpha> + \<alpha>) = v"
    by (simp add: algebra_simps)
  then show ?case using Suc by (simp add: Let_def)
qed

lemma ewm_mean_constant: "ewm_mean spn (replicate n (Some v)) = replicate n (Some v)"
  by (cases n) (simp_all add: ewm_mean_def ewm_loop_constant)

lemma s_sub_constant:
  "s_sub (replicate n (Some a)) (replicate n (Some b)) = replicate n (Some (a - b))"
  by (induction n) (simp_all add: s_sub_def lift2_def)


lemma ewm_loop_recurrence:
  "ewm_loop k (Some a) 1 (map Some cs) = map Some (ema_rec k a cs)"
proof (induction cs arbitrary: a)
  case Nil
  show ?case by simp
next
  case (Cons c cs)
  have e: "(1 - k) * a + k * c = c * k + a * (1 - k)"
    by (simp add: algebra_simps)
  show ?case by (simp add: Let_def Cons.IH e)
qed

lemma ewm_mean_recurrence:
  "ewm_mean spn (map Some cs) = map Some (ema (2 / (real spn + 1)) cs)"
  by (cases cs) (simp_all add: ewm_mean_def ewm_loop_recurrence)


text \<open>
  Claim C6. On a column without NaN the exponentially weighted mean is the recurrence
  ema[0] = close[0], ema[i] = close[i] * k + ema[i-1] * (1 - k) with k = 2/(span+1); on a
  constant close column the MACD column and the signal line are 0 at every row.
\<close>

theorem macd_constant_zero:
  "ewm_mean spn (map Some cs) = map Some (ema (2 / (real spn + 1)) cs) \<and>
   MACD (replicate n (Some v)) = replicate n (Some 0) \<and>
   Signal_Line (replicate n (Some v)) = replicate n (Some 0)"
  by (simp add: Signal_Line_def MACD_def ewm_mean_constant s_sub_constant ewm_mean_recurrence)

subsection \<open>Bollinger bands of a constant column\<close>

lemma window_replicate:
  "i < n \<Longrightarrow> window w (replicate n c) i = replicate (min (Suc i) w) c"
proof -
  assume "i < n"
  then have "min (Suc i) n - (Suc i - w) = min (Suc i) w" by (simp add: min_def)
  then show ?thesis by (simp add: window_def del: replicate_Suc)
qed

lemma observed_replicate: "observed (replicate k (Some v)) = replicate k v"
  by (induction k) (simp_all add: observed_def)

lemma mean_agg_replicate:
  "mean_agg m (replicate k (Some v)) = (if m \<le> k \<and> 0 < k then Some v else None)"
  by (simp add: mean_agg_def Let_def observed_replicate sum_list_replicate)

lemma std_agg_replicate:
  "std_agg m d (replicate k (Some v)) = (if m \<le> k \<and> d < k then Some 0 else None)"
proof -
  have "sum_list (map (\<lambda>x. (x - c)\<^sup>2) (replicate k v)) = real k * (v - c)\<^sup>2" for c
    by (induction k) (simp_all add: algebra_simps)
  moreover have "0 < k \<Longrightarrow> sum_list (replicate k v) / real k = v"
    by (simp add: sum_list_replicate)
  ultimately show ?thesis
    by (auto simp: std_agg_def Let_def observed_replicate sum_list_replicate)
qed

lemma MA_constant_nth:
  "i < n \<Longrightarrow> MA w (replicate n (Some v)) ! i = (if 1 \<le> w \<and> w \<le> Suc i then Some v else None)"
  by (auto simp: MA_def rolling_mean_def rolling_nth window_replicate mean_agg_replicate min_def)

lemma Std_constant_nth:
  "i < n \<Longrightarrow> Std w (replicate n (Some v)) ! i = (if 2 \<le> w \<and> w \<le> Suc i then Some 0 else None)"
  by (auto simp: Std_def rolling_std_def rolling_nth window_replicate std_agg_replicate min_def)

lemma length_MA: "length (MA w xs) = length xs"
  by (simp add: MA_def rolling_mean_def length_rolling)

lemma length_Std: "length (Std w xs) = length xs"
  by (simp add: Std_def rolling_std_def length_rolling)

lemma Upper_Band_nth:
  "i < length xs \<Longrightarrow>
   Upper_Band w xs ! i = lift2 (+) (MA w xs ! i) (map_option (\<lambda>x. x * 2) (Std w xs ! i))"
  by (simp add: Upper_Band_def s_add_def s_scale_def length_MA length_Std)

lemma Lower_Band_nth:
  "i < length xs \<Longrightarrow>
   Lower_Band w xs ! i = lift2 (-) (MA w xs ! i) (map_option (\<lambda>x. x * 2) (Std w xs ! i))"
  by (simp add: Lower_Band_def s_sub_def s_scale_def length_MA length_Std)

text \<open>
  Claim C5. On a constant close column of value v, at every row where the rolling
  standard deviation is defined it is 0, and where a band is defined it equals v, the
  moving average over the same window; with a window of at least 2 they are defined
  from row w-1 on.
\<close>

theorem bollinger_constant:
  assumes "i < n"
  shows "(2 \<le> w \<and> w - 1 \<le> i \<longrightarrow>
            Std w (replicate n (Some v)) ! i = Some 0 \<and>
            MA w (replicate n (Some v)) ! i = Some v \<and>
            Upper_Band w (replicate n (Some v)) ! i = Some v \<and>
            Lower_Band w (replicate n (Some v)) ! i = Some v) \<and>
         (\<forall>s. Std w (replicate n (Some v)) ! i = Some s \<longrightarrow> s = 0) \<and>
         (\<forall>m. MA w (replicate n (Some v)) ! i = Some m \<longrightarrow> m = v) \<and>
         (\<forall>b. Upper_Band w (replicate n (Some v)) ! i = Some b \<longrightarrow> b = v) \<and>
         (\<forall>b. Lower_Band w (replicate n (Some v)) ! i = Some b \<longrightarrow> b = v)"
  using assms
  by (auto simp: Upper_Band_nth Lower_Band_nth MA_constant_nth Std_constant_nth lift2_def
      split: if_splits)

theorem bollinger_constant_witness:
  "Std 5 (replicate 7 (Some 3)) ! 4 = Some 0 \<and>
   MA 5 (replicate 7 (Some 3)) ! 4 = Some 3 \<and>
   Upper_Band 5 (replicate 7 (Some 3)) ! 4 = Some 3 \<and>
   Lower_Band 5 (replicate 7 (Some 3)) ! 4 = Some 3"
  using bollinger_constant [of 4 7 5 3] by simp

subsection \<open>The relative strength index\<close>


lemmas rsi_unfold =
  RSI_def rs_def avg_up_def avg_down_def up_def down_def rolling_mean_def rolling_def
  window_def mean_agg_def observed_def diff_def clip_lower_def clip_upper_def s_scale_def
  s_div_def replace_def fdiv_def lift2_def

lemma RSI_rising_scenario: "RSI 2 (map Some [1, 2, 3]) = [None, None, None]"
  by (simp add: rsi_unfold upt_rec)

lemma RSI_mixed_scenario: "RSI 2 (map Some [3, 1, 2]) = [None, None, Some (100 / 3)]"
  by (simp add: rsi_unfold upt_rec)

lemma length_diff: "length (diff c) = length c"
  by (cases c) (simp_all add: diff_def)

lemma diff_nth:
  "j < length c \<Longrightarrow> diff c ! j = (if j = 0 then None else lift2 (-) (c ! j) (c ! (j - 1)))"
  by (cases c; cases j) (simp_all add: diff_def)

lemma length_observed: "length (observed w) \<le> length w"
  by (induction w) (simp_all add: observed_def split: option.splits)

lemma observed_None: "observed (None # w) = observed w"
  by (simp add: observed_def)

text \<open>A column whose first cell is NaN and whose other cells are numbers.\<close>

lemma rolling_mean_shifted:
  assumes d0: "d ! 0 = None" and dj: "\<And>j. 0 < j \<Longrightarrow> j < length d \<Longrightarrow> d ! j = Some (g j)"
    and i: "i < length d"
  shows "rolling_mean p d ! i =
           (if 1 \<le> p \<and> p \<le> i then Some (sum_list (map g [Suc i - p..<Suc i]) / real p)
            else None)"
proof -
  have r: "rolling_mean p d ! i = mean_agg p (window p d i)"
    using i by (simp add: rolling_mean_def rolling_nth)
  have w: "window p d i = map ((!) d) [Suc i - p..<Suc i]"
    using i by (rule window_nths)
  show ?thesis
  proof (cases "1 \<le> p \<and> p \<le> i")
    case True
    then have p1: "1 \<le> p" and pi: "p \<le> i" by simp_all
    have "map ((!) d) [Suc i - p..<Suc i] = map (\<lambda>j. Some (g j)) [Suc i - p..<Suc i]"
      using p1 pi i by (intro map_cong refl dj) auto
    then have obs: "observed (window p d i) = map g [Suc i - p..<Suc i]"
      by (simp only: w observed_Some)
    have "length [Suc i - p..<Suc i] = p" using pi by (simp del: upt_Suc)
    then have len: "length (observed (window p d i)) = p" by (simp only: obs length_map)
    have "mean_agg p (window p d i) = Some (sum_list (observed (window p d i)) / real p)"
      unfolding mean_agg_def Let_def len using p1 by simp
    then have "mean_agg p (window p d i) = Some (sum_list (map g [Suc i - p..<Suc i]) / real p)"
      by (simp only: obs)
    then show ?thesis using p1 pi by (simp add: r del: upt_Suc)
  next
    case False
    show ?thesis
    proof (cases "p = 0")
      case True
      then show ?thesis using r by (simp add: window_def mean_agg_def observed_def)
    next
      case p: False
      with False have "i < p" by simp
      then have "window p d i = d ! 0 # map ((!) d) [1..<Suc i]"
        by (simp only: w) (simp add: upt_conv_Cons del: upt_Suc)
      then have "observed (window p d i) = observed (map ((!) d) [1..<Suc i])"
        by (simp add: d0 observed_None)
      moreover have "length (observed (map ((!) d) [1..<Suc i])) \<le> i"
        using length_observed [of "map ((!) d) [1..<Suc i]"] by (simp del: upt_Suc)
      ultimately have "length (observed (window p d i)) < p" using \<open>i < p\<close> by simp
      then show ?thesis using False r by (simp add: mean_agg_def Let_def)
    qed
  qed
qed


lemma up_nth:
  "j < length xs \<Longrightarrow>
   up (map Some xs) ! j = (if j = 0 then None else Some (max (xs ! j - xs ! (j - 1)) 0))"
  by (simp add: up_def clip_lower_def length_diff diff_nth lift2_def)

lemma down_nth:
  "j < length xs \<Longrightarrow>
   down (map Some xs) ! j = (if j = 0 then None else Some (max (xs ! (j - 1) - xs ! j) 0))"
  by (simp add: down_def clip_upper_def s_scale_def length_diff diff_nth lift2_def min_def max_def)

lemma length_up: "length (up c) = length c"
  by (simp add: up_def clip_lower_def length_diff)

lemma length_down: "length (down c) = length c"
  by (simp add: down_def clip_upper_def s_scale_def length_diff)

lemma avg_up_nth:
  assumes "i < length xs"
  shows "avg_up p (map Some xs) ! i =
           (if 1 \<le> p \<and> p \<le> i
            then Some (sum_list (map (\<lambda>j. max (xs ! j - xs ! (j - 1)) 0) [Suc i - p..<Suc i]) / real p)
            else None)"
proof -
  from assms have "0 < length xs" by linarith
  then have "up (map Some xs) ! 0 = None" by (simp add: up_nth)
  then show ?thesis
    unfolding avg_up_def
    by (rule rolling_mean_shifted) (use assms in \<open>simp_all add: up_nth length_up\<close>)
qed

lemma avg_down_nth:
  assumes "i < length xs"
  shows "avg_down p (map Some xs) ! i =
           (if 1 \<le> p \<and> p \<le> i
            then Some (sum_list (map (\<lambda>j. max (xs ! (j - 1) - xs ! j) 0) [Suc i - p..<Suc i]) / real p)
            else None)"
proof -
  from assms have "0 < length xs" by linarith
  then have "down (map Some xs) ! 0 = None" by (simp add: down_nth)
  then show ?thesis
    unfolding avg_down_def
    by (rule rolling_mean_shifted) (use assms in \<open>simp_all add: down_nth length_down\<close>)
qed

lemma length_avg_up: "length (avg_up p c) = length c"
  by (simp add: avg_up_def rolling_mean_def length_rolling length_up)

lemma length_avg_down: "length (avg_down p c) = length c"
  by (simp add: avg_down_def rolling_mean_def length_rolling length_down)

lemma length_rs: "length (rs p c) = length c"
  by (simp add: rs_def s_div_def replace_def length_avg_up length_avg_down)

lemma length_RSI: "length (RSI p c) = length c"
  by (simp add: RSI_def length_rs)

lemma rs_nth:
  "i < length c \<Longrightarrow>
   rs p c ! i = fdiv (avg_up p c ! i)
                     (if avg_down p c ! i = Some 0 then None else avg_down p c ! i)"
  by (simp add: rs_def s_div_def replace_def length_avg_up length_avg_down)

lemma RSI_nth:
  "i < length c \<Longrightarrow>
   RSI p c ! i = lift2 (-) (Some 100) (fdiv (Some 100) (lift2 (+) (Some 1) (rs p c ! i)))"
  by (simp add: RSI_def length_rs)

lemma falls_zero_iff:
  "sum_list (map (\<lambda>j. max (xs ! (j - 1) - xs ! j) (0::real)) js) = 0 \<longleftrightarrow>
     (\<forall>j \<in> set js. xs ! (j - 1) \<le> xs ! j)"
proof -
  have "sum_list (map (\<lambda>j. max (xs ! (j - 1) - xs ! j) (0::real)) js) = 0 \<longleftrightarrow>
        (\<forall>x \<in> set (map (\<lambda>j. max (xs ! (j - 1) - xs ! j) (0::real)) js). x = 0)"
    by (rule sum_list_nonneg_eq_0_iff) auto
  also have "\<dots> \<longleftrightarrow> (\<forall>j \<in> set js. max (xs ! (j - 1) - xs ! j) 0 = 0)"
    by (simp only: set_map ball_simps)
  also have "\<dots> \<longleftrightarrow> (\<forall>j \<in> set js. xs ! (j - 1) \<le> xs ! j)"
  proof (intro ball_cong refl)
    fix j
    show "(max (xs ! (j - 1) - xs ! j) 0 = 0) = (xs ! (j - 1) \<le> xs ! j)"
      by (simp add: max_def)
  qed
  finally show ?thesis .
qed

lemma RSI_defined_iff:
  assumes "i < length xs"
  shows "RSI p (map Some xs) ! i \<noteq> None \<longleftrightarrow>
           1 \<le> p \<and> p \<le> i \<and> (\<exists>j. Suc i - p \<le> j \<and> j \<le> i \<and> xs ! j < xs ! (j - 1))"
proof (cases "1 \<le> p \<and> p \<le> i")
  case False
  then have "avg_up p (map Some xs) ! i = None" using assms by (simp add: avg_up_nth)
  then have "RSI p (map Some xs) ! i = None"
    using assms by (simp add: RSI_nth rs_nth fdiv_def lift2_def)
  with False show ?thesis by blast
next
  case True
  define U where "U = sum_list (map (\<lambda>j. max (xs ! j - xs ! (j - 1)) 0) [Suc i - p..<Suc i]) / real p"
  define D where "D = sum_list (map (\<lambda>j. max (xs ! (j - 1) - xs ! j) 0) [Suc i - p..<Suc i]) / real p"
  have u: "avg_up p (map Some xs) ! i = Some U" and d: "avg_down p (map Some xs) ! i = Some D"
    using True assms by (simp_all add: avg_up_nth avg_down_nth U_def D_def)
  have "0 \<le> sum_list (map (\<lambda>j. max (xs ! j - xs ! (j - 1)) 0) [Suc i - p..<Suc i])"
    by (rule sum_list_nonneg) auto
  then have U0: "0 \<le> U" by (simp add: U_def)
  have "0 \<le> sum_list (map (\<lambda>j. max (xs ! (j - 1) - xs ! j) 0) [Suc i - p..<Suc i])"
    by (rule sum_list_nonneg) auto
  then have D0: "0 \<le> D" by (simp add: D_def)
  have Dz: "D = 0 \<longleftrightarrow> (\<forall>j \<in> set [Suc i - p..<Suc i]. xs ! (j - 1) \<le> xs ! j)"
    using True falls_zero_iff [of xs "[Suc i - p..<Suc i]"] by (simp add: D_def del: upt_Suc)
  have ex: "(\<exists>j. Suc i - p \<le> j \<and> j \<le> i \<and> xs ! j < xs ! (j - 1)) \<longleftrightarrow> D \<noteq> 0"
    unfolding Dz by (auto simp del: upt_Suc simp: not_le less_Suc_eq_le)
  have "RSI p (map Some xs) ! i \<noteq> None \<longleftrightarrow> D \<noteq> 0"
  proof (cases "D = 0")
    case True
    then show ?thesis using assms u d by (simp add: RSI_nth rs_nth fdiv_def lift2_def)
  next
    case False
    with D0 have "0 < D" by simp
    with U0 have "0 \<le> U / D" by simp
    then have "1 + U / D \<noteq> 0" by linarith
    then show ?thesis using False assms u d by (simp add: RSI_nth rs_nth fdiv_def lift2_def)
  qed
  with True ex show ?thesis by simp
qed


text \<open>Neither division of the RSI meets a zero divisor, whatever the close column.\<close>

lemma nonneg_mean_agg:
  assumes "\<forall>c \<in> set win. nonneg_cell c"
  shows "nonneg_cell (mean_agg m win)"
proof -
  have "\<forall>x \<in> set (observed win). 0 \<le> x"
    using assms by (induction win) (auto simp: observed_def nonneg_cell_def split: option.splits)
  then have "0 \<le> sum_list (observed win)" by (simp add: sum_list_nonneg)
  then show ?thesis by (simp add: mean_agg_def Let_def nonneg_cell_def)
qed

lemma set_window: "set (window w xs i) \<subseteq> set xs"
  unfolding window_def by (meson set_drop_subset set_take_subset subset_trans)

lemma nonneg_rolling_mean:
  assumes "\<forall>c \<in> set xs. nonneg_cell c"
  shows "\<forall>c \<in> set (rolling_mean w xs). nonneg_cell c"
  using assms set_window [of w xs]
  by (auto simp: rolling_mean_def rolling_def intro!: nonneg_mean_agg)

lemma nonneg_up: "\<forall>c \<in> set (up close). nonneg_cell c"
  by (auto simp: up_def clip_lower_def nonneg_cell_def split: option.splits)

lemma nonneg_down: "\<forall>c \<in> set (down close). nonneg_cell c"
  by (auto simp: down_def clip_upper_def s_scale_def nonneg_cell_def min_def split: option.splits)

lemma rs_nonneg:
  assumes "Some r \<in> set (rs p close)"
  shows "0 \<le> r"
proof -
  from assms obtain i where i: "i < length close" and r: "rs p close ! i = Some r"
    by (metis in_set_conv_nth length_rs)
  from r i obtain a b where a: "avg_up p close ! i = Some a" and b: "avg_down p close ! i = Some b"
    and b0: "b \<noteq> 0" and q: "r = a / b"
    by (auto simp: rs_nth fdiv_def split: option.splits if_splits)
  have "nonneg_cell (avg_up p close ! i)"
    using nonneg_rolling_mean [OF nonneg_up, of p close] i
    by (simp add: avg_up_def rolling_mean_def length_rolling length_up)
  moreover have "nonneg_cell (avg_down p close ! i)"
    using nonneg_rolling_mean [OF nonneg_down, of p close] i
    by (simp add: avg_down_def rolling_mean_def length_rolling length_down)
  ultimately have "0 \<le> a" "0 \<le> b" using a b by (simp_all add: nonneg_cell_def)
  then show ?thesis using q by simp
qed

lemma rsi_divisor_nonzero:
  assumes "c \<in> set (rs p close)"
  shows "lift2 (+) (Some 1) c \<noteq> Some 0"
proof (cases c)
  case None
  then show ?thesis by (simp add: lift2_def)
next
  case (Some r)
  with assms have "0 \<le> r" by (simp add: rs_nonneg)
  then have "1 + r \<noteq> 0" by linarith
  with Some show ?thesis by (simp add: lift2_def)
qed

lemma rs_divisor_nonzero: "Some 0 \<notin> set (replace (Some 0) None ys)"
  by (auto simp: replace_def)

text \<open>
  Claim C1, as the code has it. On a strictly increasing close column the RSI is NaN at
  every row, for every period: the rolling mean of the falls is 0 wherever it is a
  number, \<open>replace(0, np.nan)\<close> turns it into NaN, and so the quotient \<open>rs\<close> and the
  RSI are NaN; the divisor column holds no 0, so no division by zero is evaluated. The
  value 100 is never produced.
\<close>

theorem rsi_increasing_undefined:
  assumes "sorted_wrt (<) xs"
  shows "RSI p (map Some xs) = replicate (length xs) None \<and>
         rs p (map Some xs) = replicate (length xs) None \<and>
         Some 0 \<notin> set (replace (Some 0) None (avg_down p (map Some xs)))"
proof -
  have cell: "RSI p (map Some xs) ! i = None" if i: "i < length xs" for i
  proof -
    have "\<not> (\<exists>j. Suc i - p \<le> j \<and> j \<le> i \<and> xs ! j < xs ! (j - 1))"
    proof
      assume "\<exists>j. Suc i - p \<le> j \<and> j \<le> i \<and> xs ! j < xs ! (j - 1)"
      then obtain j where j: "j \<le> i" "xs ! j < xs ! (j - 1)" by blast
      show False
      proof (cases "j = 0")
        case True
        with j show False by simp
      next
        case False
        then have "j - 1 < j" by simp
        moreover have "j < length xs" using j i by simp
        ultimately have "xs ! (j - 1) < xs ! j"
          using assms by (simp only: sorted_wrt_nth_less)
        with j show False by simp
      qed
    qed
    then show ?thesis using RSI_defined_iff [OF i, of p] by blast
  qed
  have rcell: "rs p (map Some xs) ! i = None" if i: "i < length xs" for i
  proof (rule ccontr)
    assume "rs p (map Some xs) ! i \<noteq> None"
    then obtain r where r: "rs p (map Some xs) ! i = Some r" by blast
    have "0 \<le> r" using rs_nonneg [of r p "map Some xs"] r i
      by (metis length_map length_rs nth_mem)
    then have "1 + r \<noteq> 0" by linarith
    then have "RSI p (map Some xs) ! i \<noteq> None"
      using i r by (simp add: RSI_nth fdiv_def lift2_def)
    with cell [OF i] show False by simp
  qed
  have "RSI p (map Some xs) = replicate (length xs) None"
    by (rule nth_equalityI) (simp_all add: length_RSI cell)
  moreover have "rs p (map Some xs) = replicate (length xs) None"
    by (rule nth_equalityI) (simp_all add: length_rs rcell)
  ultimately show ?thesis using rs_divisor_nonzero by blast
qed


theorem rsi_increasing_undefined_witness:
  "RSI 2 (map Some [1, 2, 3]) = [None, None, None] \<and>
   rs 2 (map Some [1, 2, 3]) = [None, None, None]"
  using rsi_increasing_undefined [of "[1, 2, 3]" 2] by simp

text \<open>
  The closes 1, 2, 3 with period 2: row 2 has a full window of two rises, and its RSI is
  not 100.
\<close>

theorem rsi_increasing_counterexample:
  "RSI 2 (map Some [1, 2, 3]) ! 2 \<noteq> Some 100"
  by (simp add: rsi_unfold upt_rec)

lemma Std_undefined_iff:
  assumes "i < length xs"
  shows "Std w (map Some xs) ! i = None \<longleftrightarrow> \<not> (2 \<le> w \<and> w \<le> Suc i)"
proof -
  have "Std w (map Some xs) ! i = std_agg w 1 (map Some (window w xs i))"
    using assms by (simp add: Std_def rolling_std_def rolling_nth window_map)
  moreover have "length (window w xs i) = min (Suc i) w"
    using assms by (rule length_window)
  ultimately show ?thesis
    by (auto simp: std_agg_def Let_def observed_map_Some min_def)
qed

lemma MA_undefined_iff:
  assumes "i < length xs"
  shows "MA w (map Some xs) ! i = None \<longleftrightarrow> \<not> (1 \<le> w \<and> w \<le> Suc i)"
  using assms by (simp add: MA_nth_Some)

lemma lift2_None_iff: "lift2 f a b = None \<longleftrightarrow> a = None \<or> b = None"
  by (simp add: lift2_def split: option.splits)

text \<open>
  Claim C3, as the code has it. On a close column of numbers, the moving average over a
  window n of at least 1 and the Bollinger bands over a window n of at least 2 are NaN
  exactly at the rows before n-1. The RSI with period n of at least 1 is NaN at the
  first n rows (the difference column starts with NaN), and at a later row it is a
  number exactly when some close of the last n rows is below its predecessor.
\<close>

theorem derived_columns_defined:
  assumes "i < length xs"
  shows "(1 \<le> w \<longrightarrow> (MA w (map Some xs) ! i = None \<longleftrightarrow> i < w - 1)) \<and>
         (2 \<le> w \<longrightarrow> (Upper_Band w (map Some xs) ! i = None \<longleftrightarrow> i < w - 1) \<and>
                     (Lower_Band w (map Some xs) ! i = None \<longleftrightarrow> i < w - 1)) \<and>
         (1 \<le> p \<longrightarrow> (RSI p (map Some xs) ! i \<noteq> None \<longleftrightarrow>
                       p \<le> i \<and> (\<exists>j. i + 1 - p \<le> j \<and> j \<le> i \<and> xs ! j < xs ! (j - 1))))"
proof -
  have i': "i < length (map Some xs)" using assms by simp
  have ma: "MA w (map Some xs) ! i = None \<longleftrightarrow> i < w - 1" if "1 \<le> w"
    using that assms by (auto simp: MA_undefined_iff)
  have bands: "(Upper_Band w (map Some xs) ! i = None \<longleftrightarrow> i < w - 1) \<and>
               (Lower_Band w (map Some xs) ! i = None \<longleftrightarrow> i < w - 1)" if "2 \<le> w"
    using that assms
    by (auto simp: Upper_Band_nth [OF i'] Lower_Band_nth [OF i'] lift2_None_iff
        MA_undefined_iff Std_undefined_iff)
  have rsi: "RSI p (map Some xs) ! i \<noteq> None \<longleftrightarrow>
               p \<le> i \<and> (\<exists>j. i + 1 - p \<le> j \<and> j \<le> i \<and> xs ! j < xs ! (j - 1))" if "1 \<le> p"
    using that RSI_defined_iff [OF assms, of p] by simp
  from ma bands rsi show ?thesis by blast
qed

theorem derived_columns_defined_witness:
  "MA 2 (map Some [3, 1, 2]) ! 2 \<noteq> None \<and> MA 2 (map Some [3, 1, 2]) ! 0 = None \<and>
   Upper_Band 2 (map Some [3, 1, 2]) ! 2 \<noteq> None \<and>
   Lower_Band 2 (map Some [3, 1, 2]) ! 2 \<noteq> None \<and>
   RSI 2 (map Some [3, 1, 2]) ! 2 \<noteq> None \<and>
   RSI 2 (map Some [3, 1, 2]) ! 1 = None"
proof -
  have "\<exists>j. (2::nat) + 1 - 2 \<le> j \<and> j \<le> 2 \<and> [3, 1, 2::real] ! j < [3, 1, 2] ! (j - 1)"
    by (rule exI [of _ 1]) simp
  then show ?thesis
    using derived_columns_defined [of 2 "[3, 1, 2]" 2 2]
      derived_columns_defined [of 0 "[3, 1, 2]" 2 2]
      derived_columns_defined [of 1 "[3, 1, 2]" 2 2]
    by simp
qed

text \<open>
  The closes 3, 1, 2 with RSI period 2: row 2 - 1 = 1 is past the first n-1 rows, and
  the RSI there is NaN.
\<close>

theorem derived_columns_counterexample:
  "RSI 2 (map Some [3, 1, 2]) ! (2 - 1) = None"
  by (simp add: rsi_unfold upt_rec)

end
